theory Spec2Isabelle
  imports Complex_Main "HOL-Library.Word"
begin

unbundle bit_operations_syntax

section \<open>Numeric types of the Go source\<close>

text \<open>
  The layers of \<^verbatim>\<open>pong\<close> compute with three kinds of numbers. Colour channels are
  \<^verbatim>\<open>uint8\<close>; \<^verbatim>\<open>blend\<close> widens them to \<^verbatim>\<open>uint\<close> (64 bits here; the products
  stay below \<open>2 ^ 16\<close>, so 32 bits behave the same) and narrows the sums back to
  \<^verbatim>\<open>uint8\<close>. Positions, velocities and phases are \<^verbatim>\<open>float64\<close>; they are idealised
  as \<^typ>\<open>real\<close>, so that rounding is not modelled and \<^verbatim>\<open>0.27\<close> is the rational
  \<open>27 / 100\<close>. The field width is a Go \<^verbatim>\<open>int\<close>, modelled as \<^typ>\<open>int\<close>.
\<close>

type_synonym uint8 = "8 word"
type_synonym uint = "64 word"

text \<open>
  Go's conversion of a floating-point value to an integer type discards the fraction
  (truncation towards zero); the conversion to \<^verbatim>\<open>uint8\<close> then keeps the low byte.
\<close>

definition int_of_float :: "real \<Rightarrow> int" where
  "int_of_float x = (if x < 0 then \<lceil>x\<rceil> else \<lfloor>x\<rfloor>)"

definition uint8_of_float :: "real \<Rightarrow> uint8" where
  "uint8_of_float x = word_of_int (int_of_float x)"

text \<open>Go's integer quotient truncates towards zero.\<close>

definition go_quot :: "int \<Rightarrow> int \<Rightarrow> int" where
  "go_quot a b = sgn a * sgn b * (\<bar>a\<bar> div \<bar>b\<bar>)"

section \<open>Colours and blending\<close>

record RGBA =
  R :: uint8
  G :: uint8
  B :: uint8
  A :: uint8

text \<open>
  \<^verbatim>\<open>func blend(foreground, background RGBA) (color RGBA)\<close>. In Go the shift binds
  tighter than the addition, so each channel is
  \<^verbatim>\<open>((f*opacity)>>8) + ((b*backgroundOpacity)>>8)\<close>.
\<close>

definition blend :: "RGBA \<Rightarrow> RGBA \<Rightarrow> RGBA" where
  "blend foreground background =
     (let fr = (ucast (R foreground) :: uint); fg = (ucast (G foreground) :: uint);
          fb = (ucast (B foreground) :: uint); fa = (ucast (A foreground) :: uint);
          br = (ucast (R background) :: uint); bg = (ucast (G background) :: uint);
          bb = (ucast (B background) :: uint); ba = (ucast (A background) :: uint);
          opacity = fa;
          backgroundOpacity = drop_bit 8 (ba * (255 - fa))
      in \<lparr>R = ucast (drop_bit 8 (fr * opacity) + drop_bit 8 (br * backgroundOpacity)),
          G = ucast (drop_bit 8 (fg * opacity) + drop_bit 8 (bg * backgroundOpacity)),
          B = ucast (drop_bit 8 (fb * opacity) + drop_bit 8 (bb * backgroundOpacity)),
          A = ucast opacity\<rparr>)"

text \<open>
  The weight that \<^verbatim>\<open>blend\<close> gives the background, read as a number:
  \<^verbatim>\<open>(ba * (255 - fa)) >> 8\<close>.
\<close>

definition bgWeight :: "uint8 \<Rightarrow> uint8 \<Rightarrow> nat" where
  "bgWeight ba fa = unat ba * (255 - unat fa) div 256"

section \<open>The game field\<close>

text \<open>
  Modelled from the spec: the type \<^verbatim>\<open>GameField\<close> is declared outside the source at
  hand. The layers only read its integer width, through the method \<^verbatim>\<open>Width()\<close> or the
  field \<^verbatim>\<open>width\<close>.
\<close>

record GameField =
  width :: int

definition Width :: "GameField \<Rightarrow> int" where
  "Width field = width field"

section \<open>Lines\<close>

record Line =
  leftEdge :: real
  rightEdge :: real
  color :: RGBA
  zindex :: int

definition NewLine :: "real \<Rightarrow> real \<Rightarrow> RGBA \<Rightarrow> int \<Rightarrow> Line" where
  "NewLine l r c z = \<lparr>leftEdge = l, rightEdge = r, color = c, zindex = z\<rparr>"

text \<open>\<^verbatim>\<open>Line.ColorAt\<close> of the revision that has \<^verbatim>\<open>blend\<close>.\<close>

definition Line_ColorAt :: "Line \<Rightarrow> real \<Rightarrow> RGBA \<Rightarrow> RGBA" where
  "Line_ColorAt this pos baseColor =
     (if leftEdge this \<le> pos \<and> pos \<le> rightEdge this then blend (color this) baseColor
      else baseColor)"

text \<open>
  \<^verbatim>\<open>Line.ColorAt\<close> of the earlier revision, which has no \<^verbatim>\<open>blend\<close>: the bounds are
  strict and the line's colour replaces the base.
\<close>

definition Line_ColorAt_early :: "Line \<Rightarrow> real \<Rightarrow> RGBA \<Rightarrow> RGBA" where
  "Line_ColorAt_early this pos baseColor =
     (if leftEdge this < pos \<and> pos < rightEdge this then color this else baseColor)"

definition Line_Animate :: "Line \<Rightarrow> real \<Rightarrow> Line \<times> bool" where
  "Line_Animate this dt = (this, True)"

section \<open>Players\<close>

text \<open>
  A player owns its line (the pointer is not shared). \<^verbatim>\<open>NewPlayer\<close> leaves
  \<^verbatim>\<open>visible\<close> out of the literal, so it holds Go's zero value \<^verbatim>\<open>false\<close>.
\<close>

record Player =
  line :: Line
  visible :: bool

definition NewPlayer :: "bool \<Rightarrow> GameField \<Rightarrow> Player" where
  "NewPlayer isLeft field =
     (if isLeft
      then \<lparr>line = NewLine 0 (of_int (go_quot (Width field) 2))
                     \<lparr>R = 255, G = 0, B = 0, A = 200\<rparr> 10,
            visible = False\<rparr>
      else \<lparr>line = NewLine (of_int (go_quot (Width field) 2) + 1) (of_int (Width field))
                     \<lparr>R = 0, G = 255, B = 0, A = 200\<rparr> 10,
            visible = False\<rparr>)"

definition UpdateVisible :: "Player \<Rightarrow> bool \<Rightarrow> Player" where
  "UpdateVisible this v = this\<lparr>visible := v\<rparr>"

definition Player_ColorAt :: "Player \<Rightarrow> real \<Rightarrow> RGBA \<Rightarrow> RGBA" where
  "Player_ColorAt this pos baseColor =
     (if \<not> visible this then baseColor else Line_ColorAt (line this) pos baseColor)"

definition Player_Animate :: "Player \<Rightarrow> real \<Rightarrow> Player \<times> bool" where
  "Player_Animate this dt = (this, True)"

text \<open>
  The two calls that can reach a player's state after construction, and a run of them
  in order.
\<close>

datatype PlayerCall = CallUpdateVisible bool | CallAnimate real

fun Player_call :: "Player \<Rightarrow> PlayerCall \<Rightarrow> Player" where
  "Player_call this (CallUpdateVisible v) = UpdateVisible this v"
| "Player_call this (CallAnimate dt) = fst (Player_Animate this dt)"

fun Player_run :: "Player \<Rightarrow> PlayerCall list \<Rightarrow> Player" where
  "Player_run this [] = this"
| "Player_run this (c # cs) = Player_run (Player_call this c) cs"

section \<open>The ball\<close>

record Ball =
  position :: real
  velocity :: real
  maxPosition :: real
  zindex :: int

definition NewBall :: "GameField \<Rightarrow> Ball" where
  "NewBall field =
     \<lparr>position = 0, velocity = of_int (Width field) / 3,
      maxPosition = of_int (Width field - 1), zindex = 100\<rparr>"

text \<open>The alpha of the white dot at a given distance: \<^verbatim>\<open>uint8((1.0 - distance) * 255.0)\<close>.\<close>

definition dotAlpha :: "real \<Rightarrow> uint8" where
  "dotAlpha distance = uint8_of_float ((1 - distance) * 255)"

definition Ball_ColorAt :: "Ball \<Rightarrow> real \<Rightarrow> RGBA \<Rightarrow> RGBA" where
  "Ball_ColorAt this pos baseColor =
     (let distance = \<bar>pos - position this\<bar>
      in if distance < 1
         then blend \<lparr>R = 255, G = 255, B = 255, A = dotAlpha distance\<rparr> baseColor
         else baseColor)"

text \<open>\<^verbatim>\<open>Ball.Animate\<close>: the new state and the returned \<^verbatim>\<open>keepAlive\<close>.\<close>

definition Ball_Animate :: "Ball \<Rightarrow> real \<Rightarrow> Ball \<times> bool" where
  "Ball_Animate this dt =
     (let moved = this\<lparr>position := position this + velocity this * dt\<rparr>
      in if position moved > maxPosition moved
         then (moved\<lparr>position := maxPosition moved - (position moved - maxPosition moved),
                     velocity := - velocity moved\<rparr>, True)
         else if position moved < 0
         then (moved\<lparr>position := - position moved, velocity := - velocity moved\<rparr>, True)
         else (moved, True))"

text \<open>A sequence of frames, and the number of them in which the ball left the field.\<close>

fun Ball_run :: "Ball \<Rightarrow> real list \<Rightarrow> Ball" where
  "Ball_run this [] = this"
| "Ball_run this (dt # dts) = Ball_run (fst (Ball_Animate this dt)) dts"

definition crosses :: "Ball \<Rightarrow> real \<Rightarrow> bool" where
  "crosses this dt \<longleftrightarrow>
     position this + velocity this * dt > maxPosition this \<or>
     position this + velocity this * dt < 0"

fun crossings :: "Ball \<Rightarrow> real list \<Rightarrow> nat" where
  "crossings this [] = 0"
| "crossings this (dt # dts) =
     (if crosses this dt then 1 else 0) + crossings (fst (Ball_Animate this dt)) dts"

section \<open>The sinusoid background\<close>

text \<open>
  The array \<^verbatim>\<open>offsets [3]float64\<close> is a triple. A read of \<^verbatim>\<open>sineLookup\<close> outside
  the slice panics in Go; in the model \<^verbatim>\<open>lookup\<close> then returns \<open>None\<close>, and so does
  \<^verbatim>\<open>ColorAt\<close>, whose three lookups run in order.
\<close>

record Sinusoid =
  scale :: real
  offsets :: "real \<times> real \<times> real"
  zindex :: int
  sineLookup :: "uint8 list"

definition buildLookup :: "Sinusoid \<Rightarrow> Sinusoid" where
  "buildLookup this =
     this\<lparr>sineLookup :=
       map (\<lambda>index.
              let fieldPercentage = real index / 256;
                  v = (sin (fieldPercentage * 2 * pi + fst (offsets this)) + 1) / 2
              in drop_bit 1 (uint8_of_float (v * 255)))
           [0..<256]\<rparr>"

definition NewSinusoid :: "GameField \<Rightarrow> int \<Rightarrow> Sinusoid" where
  "NewSinusoid field z =
     buildLookup \<lparr>scale = of_int (Width field), offsets = (0, 0, 0), zindex = z,
                  sineLookup = []\<rparr>"

definition lookupIndex :: "real \<Rightarrow> int" where
  "lookupIndex fieldPercentage =
     int_of_float ((if fieldPercentage > 1 then fieldPercentage - 1 else fieldPercentage) * 256)"

definition lookup :: "Sinusoid \<Rightarrow> real \<Rightarrow> uint8 option" where
  "lookup this fieldPercentage =
     (let i = lookupIndex fieldPercentage
      in if 0 \<le> i \<and> i < int (length (sineLookup this))
         then Some (sineLookup this ! nat i) else None)"

definition Sinusoid_ColorAt :: "Sinusoid \<Rightarrow> real \<Rightarrow> RGBA \<Rightarrow> RGBA option" where
  "Sinusoid_ColorAt this pos baseColor =
     (let fieldPercentage = pos / scale this
      in case lookup this (fieldPercentage + fst (offsets this)) of
           None \<Rightarrow> None
         | Some r \<Rightarrow>
             (case lookup this (fieldPercentage + fst (snd (offsets this))) of
                None \<Rightarrow> None
              | Some g \<Rightarrow>
                  (case lookup this (fieldPercentage + snd (snd (offsets this))) of
                     None \<Rightarrow> None
                   | Some b \<Rightarrow> Some \<lparr>R = r, G = g, B = b, A = 255\<rparr>)))"

definition wrapOffset :: "real \<Rightarrow> real" where
  "wrapOffset x = (if x > 1 then x - 1 else x)"

definition Sinusoid_Animate :: "Sinusoid \<Rightarrow> real \<Rightarrow> Sinusoid \<times> bool" where
  "Sinusoid_Animate this dt =
     (case offsets this of
        (o0, o1, o2) \<Rightarrow>
          (this\<lparr>offsets := (wrapOffset (o0 + dt * (27 / 100)),
                            wrapOffset (o1 + dt * (41 / 100)),
                            wrapOffset (o2 + dt * (59 / 100)))\<rparr>, True))"

section \<open>Arithmetic of \<^verbatim>\<open>blend\<close> on natural numbers\<close>

lemma unat_u8_lt: "unat (x :: uint8) < 256"
  using unsigned_less [of x, where 'a = nat] by simp

lemma unat_widen: "unat (ucast (x :: uint8) :: uint) = unat x"
proof -
  have "unat x < 2 ^ 64" using unat_u8_lt [of x] by simp
  then show ?thesis by (simp add: unsigned_ucast_eq take_bit_nat_eq_self)
qed

lemma unat_narrow: "unat (ucast (w :: uint) :: uint8) = unat w mod 256"
  by (simp add: unsigned_ucast_eq take_bit_eq_mod)

lemma narrow_widen: "(ucast (ucast (x :: uint8) :: uint) :: uint8) = x"
proof -
  have "unat (ucast (ucast x :: uint) :: uint8) = unat x"
    using unat_u8_lt [of x] by (simp add: unat_narrow unat_widen)
  then show ?thesis by (simp only: word_unat_eq_iff)
qed

lemma unat_small_mult:
  fixes v w :: uint
  assumes "unat v < 256" and "unat w < 256"
  shows "unat (v * w) = unat v * unat w"
proof -
  have "unat v * unat w < 256 * 256"
    using assms by (intro mult_strict_mono) simp_all
  then have "unat v * unat w < 2 ^ LENGTH(64)" by simp
  then show ?thesis by (simp only: unat_mult_lem)
qed

lemma unat_weight:
  fixes v w :: uint
  assumes "unat v < 256" and "unat w < 256"
  shows "unat (drop_bit 8 (v * w)) = unat v * unat w div 256"
  using unat_small_mult [OF assms] by (simp add: drop_bit_eq_div unat_div_distrib)

lemma unat_complement:
  fixes a :: uint
  assumes "unat a < 256"
  shows "unat (255 - a) = 255 - unat a"
proof -
  have "a \<le> 255" using assms by (simp add: word_le_nat_alt)
  then show ?thesis by (simp add: unat_sub)
qed

lemma bgWeight_le: "bgWeight ba fa \<le> 255 - unat fa"
proof -
  have "unat ba * (255 - unat fa) \<le> 256 * (255 - unat fa)"
    using unat_u8_lt [of ba] by (intro mult_right_mono) simp_all
  then have "unat ba * (255 - unat fa) div 256 \<le> 256 * (255 - unat fa) div 256"
    by (rule div_le_mono)
  then show ?thesis by (simp add: bgWeight_def)
qed

lemma unat_backgroundOpacity:
  "unat (drop_bit 8 ((ucast (ba :: uint8) :: uint) * (255 - ucast (fa :: uint8)))) = bgWeight ba fa"
proof -
  have c: "unat (255 - (ucast fa :: uint)) = 255 - unat fa"
    using unat_complement [of "ucast fa"] by (simp add: unat_widen unat_u8_lt)
  have "unat (drop_bit 8 ((ucast ba :: uint) * (255 - ucast fa)))
          = unat (ucast ba :: uint) * unat (255 - (ucast fa :: uint)) div 256"
    by (rule unat_weight) (simp_all add: c unat_widen unat_u8_lt)
  then show ?thesis by (simp add: c unat_widen bgWeight_def)
qed

lemma scaled_le:
  fixes x k :: nat
  assumes "x < 256"
  shows "x * k div 256 \<le> k"
proof -
  have "x * k \<le> 256 * k" using assms by (intro mult_right_mono) simp_all
  then have "x * k div 256 \<le> 256 * k div 256" by (rule div_le_mono)
  then show ?thesis by simp
qed

text \<open>One channel of \<^verbatim>\<open>blend\<close>: the sum stays below 256, so nothing wraps.\<close>

lemma channel_nat:
  fixes f a b ba :: uint8
  shows "unat (ucast (drop_bit 8 ((ucast f :: uint) * ucast a)
                 + drop_bit 8 (ucast b * drop_bit 8 ((ucast ba :: uint) * (255 - ucast a)))) :: uint8)
           = unat f * unat a div 256 + unat b * bgWeight ba a div 256"
proof -
  let ?w = "drop_bit 8 ((ucast ba :: uint) * (255 - ucast a))"
  let ?l = "drop_bit 8 ((ucast f :: uint) * ucast a)"
  let ?r = "drop_bit 8 ((ucast b :: uint) * ?w)"
  have w: "unat ?w = bgWeight ba a" by (rule unat_backgroundOpacity)
  have wlt: "unat ?w < 256" using bgWeight_le [of ba a] w by simp
  have l: "unat ?l = unat f * unat a div 256"
    by (rule unat_weight [of "ucast f" "ucast a", simplified unat_widen]) (rule unat_u8_lt)+
  have r: "unat ?r = unat b * bgWeight ba a div 256"
    using unat_weight [of "ucast b" ?w] wlt by (simp add: unat_widen unat_u8_lt w)
  have "unat f * unat a div 256 \<le> unat a"
    using scaled_le [OF unat_u8_lt [of f], of "unat a"] by simp
  moreover have "unat b * bgWeight ba a div 256 \<le> 255 - unat a"
    using scaled_le [OF unat_u8_lt [of b], of "bgWeight ba a"] bgWeight_le [of ba a] by simp
  ultimately have bound: "unat ?l + unat ?r < 256"
    using unat_u8_lt [of a] by (simp add: l r)
  then have "unat ?l + unat ?r < 2 ^ LENGTH(64)" by simp
  then have "unat (?l + ?r) = unat ?l + unat ?r" by (simp only: unat_add_lem)
  then show ?thesis using bound by (simp add: unat_narrow l r)
qed

lemma blend_R: "unat (R (blend fg bg)) = unat (R fg) * unat (A fg) div 256 + unat (R bg) * bgWeight (A bg) (A fg) div 256"
  by (simp add: blend_def Let_def channel_nat)

lemma blend_G: "unat (G (blend fg bg)) = unat (G fg) * unat (A fg) div 256 + unat (G bg) * bgWeight (A bg) (A fg) div 256"
  by (simp add: blend_def Let_def channel_nat)

lemma blend_B: "unat (B (blend fg bg)) = unat (B fg) * unat (A fg) div 256 + unat (B bg) * bgWeight (A bg) (A fg) div 256"
  by (simp add: blend_def Let_def channel_nat)

lemma blend_A: "A (blend fg bg) = A fg"
  by (simp add: blend_def Let_def narrow_widen)


lemma RGBA_eq_iff:
  fixes x y :: RGBA
  shows "x = y \<longleftrightarrow> R x = R y \<and> G x = G y \<and> B x = B y \<and> A x = A y"
  by (cases x, cases y) simp

lemma unat_u8_zero_iff: "unat (x :: uint8) = 0 \<longleftrightarrow> x = 0"
  by (simp add: unat_eq_0)

section \<open>Properties of \<^verbatim>\<open>blend\<close>\<close>

text \<open>
  Claim C9. For every pair of colours the alpha of \<^verbatim>\<open>blend\<close>'s result is the
  foreground's alpha, whatever the background's alpha is. The background's alpha enters
  only through the weight \<^verbatim>\<open>(ba * (255 - fa)) >> 8\<close> by which each background
  channel is scaled; the two scaled terms never add up to more than 255, so the
  conversion to \<^verbatim>\<open>uint8\<close> loses nothing.
\<close>

theorem blend_alpha_is_foreground:
  "A (blend fg bg) = A fg \<and>
   unat (R (blend fg bg)) = unat (R fg) * unat (A fg) div 256 + unat (R bg) * bgWeight (A bg) (A fg) div 256 \<and>
   unat (G (blend fg bg)) = unat (G fg) * unat (A fg) div 256 + unat (G bg) * bgWeight (A bg) (A fg) div 256 \<and>
   unat (B (blend fg bg)) = unat (B fg) * unat (A fg) div 256 + unat (B bg) * bgWeight (A bg) (A fg) div 256"
  by (simp only: blend_A blend_R blend_G blend_B)

text \<open>
  Claim C2, as stated, fails: a fully transparent foreground over opaque white gives
  \<open>(253, 253, 253, 0)\<close>, not the background.
\<close>

theorem blend_transparent_counterexample:
  "A \<lparr>R = 0, G = 0, B = 0, A = 0\<rparr> = 0 \<and>
   blend \<lparr>R = 0, G = 0, B = 0, A = 0\<rparr> \<lparr>R = 255, G = 255, B = 255, A = 255\<rparr>
     = \<lparr>R = 253, G = 253, B = 253, A = 0\<rparr> \<and>
   blend \<lparr>R = 0, G = 0, B = 0, A = 0\<rparr> \<lparr>R = 255, G = 255, B = 255, A = 255\<rparr>
     \<noteq> \<lparr>R = 255, G = 255, B = 255, A = 255\<rparr>"
  by (simp add: blend_def)

lemma bgWeight_zero: "bgWeight ba 0 = unat ba * 255 div 256"
  by (simp add: bgWeight_def)

lemma bgWeight_full: "bgWeight ba 255 = 0"
  by (simp add: bgWeight_def)

lemma weighted_le: "unat (x :: uint8) * bgWeight ba fa div 256 \<le> unat x"
proof -
  have "bgWeight ba fa < 256"
    using bgWeight_le [of ba fa] by simp
  then have "bgWeight ba fa * unat x div 256 \<le> unat x" by (rule scaled_le)
  then show ?thesis by (simp add: mult.commute)
qed

text \<open>
  Claim C2, amended. For a foreground \<open>c\<close> with alpha 0 and any background, the result
  of \<^verbatim>\<open>blend\<close> has alpha 0 and each of its R, G, B channels is the background's
  channel scaled twice in fixed point, \<^verbatim>\<open>(b * ((ba * 255) >> 8)) >> 8\<close>, which is
  never above the background's channel; the foreground's R, G, B play no part. The
  result is the background itself exactly when the background is \<open>(0, 0, 0, 0)\<close>.
\<close>

theorem blend_transparent:
  assumes "A c = 0"
  shows "A (blend c base) = 0 \<and>
     unat (R (blend c base)) = unat (R base) * (unat (A base) * 255 div 256) div 256 \<and>
     unat (G (blend c base)) = unat (G base) * (unat (A base) * 255 div 256) div 256 \<and>
     unat (B (blend c base)) = unat (B base) * (unat (A base) * 255 div 256) div 256 \<and>
     R (blend c base) \<le> R base \<and> G (blend c base) \<le> G base \<and> B (blend c base) \<le> B base \<and>
     (blend c base = base \<longleftrightarrow> base = \<lparr>R = 0, G = 0, B = 0, A = 0\<rparr>)"
proof -
  have a: "A (blend c base) = 0" using assms by (simp add: blend_A)
  have r: "unat (R (blend c base)) = unat (R base) * (unat (A base) * 255 div 256) div 256"
    using assms by (simp add: blend_R bgWeight_zero)
  have g: "unat (G (blend c base)) = unat (G base) * (unat (A base) * 255 div 256) div 256"
    using assms by (simp add: blend_G bgWeight_zero)
  have b: "unat (B (blend c base)) = unat (B base) * (unat (A base) * 255 div 256) div 256"
    using assms by (simp add: blend_B bgWeight_zero)
  have rle: "R (blend c base) \<le> R base"
    using weighted_le [of "R base" "A base" "A c"] assms
    by (simp add: word_le_nat_alt blend_R)
  have gle: "G (blend c base) \<le> G base"
    using weighted_le [of "G base" "A base" "A c"] assms
    by (simp add: word_le_nat_alt blend_G)
  have ble: "B (blend c base) \<le> B base"
    using weighted_le [of "B base" "A base" "A c"] assms
    by (simp add: word_le_nat_alt blend_B)
  have same: "blend c base = base \<longleftrightarrow> base = \<lparr>R = 0, G = 0, B = 0, A = 0\<rparr>"
  proof
    assume e: "blend c base = base"
    then have a0: "A base = 0" using a by simp
    have "unat (R base) = 0" using r e a0 by simp
    moreover have "unat (G base) = 0" using g e a0 by simp
    moreover have "unat (B base) = 0" using b e a0 by simp
    ultimately show "base = \<lparr>R = 0, G = 0, B = 0, A = 0\<rparr>"
      using a0 by (simp add: RGBA_eq_iff unat_u8_zero_iff)
  next
    assume z: "base = \<lparr>R = 0, G = 0, B = 0, A = 0\<rparr>"
    have "unat (R (blend c base)) = 0" "unat (G (blend c base)) = 0" "unat (B (blend c base)) = 0"
      using r g b z by simp_all
    then have "R (blend c base) = 0" "G (blend c base) = 0" "B (blend c base) = 0"
      by (simp_all only: unat_u8_zero_iff)
    then have "blend c base = \<lparr>R = 0, G = 0, B = 0, A = 0\<rparr>"
      using a by (simp add: RGBA_eq_iff)
    then show "blend c base = base" using z by simp
  qed
  show ?thesis using a r g b rle gle ble same by (intro conjI)
qed

theorem blend_transparent_witness:
  "A \<lparr>R = 9, G = 8, B = 7, A = 0\<rparr> = 0 \<and>
   blend \<lparr>R = 9, G = 8, B = 7, A = 0\<rparr> \<lparr>R = 200, G = 100, B = 50, A = 255\<rparr>
     \<noteq> \<lparr>R = 200, G = 100, B = 50, A = 255\<rparr> \<and>
   A (blend \<lparr>R = 9, G = 8, B = 7, A = 0\<rparr> \<lparr>R = 200, G = 100, B = 50, A = 255\<rparr>) = 0 \<and>
   unat (R (blend \<lparr>R = 9, G = 8, B = 7, A = 0\<rparr> \<lparr>R = 200, G = 100, B = 50, A = 255\<rparr>)) = 198"
  using blend_transparent [of "\<lparr>R = 9, G = 8, B = 7, A = 0\<rparr>" "\<lparr>R = 200, G = 100, B = 50, A = 255\<rparr>"]
  by simp

text \<open>
  Claim C3, as stated, fails: an opaque white foreground comes out as
  \<open>(254, 254, 254, 255)\<close>, because \<^verbatim>\<open>(255 * 255) >> 8\<close> is 254.
\<close>

theorem blend_opaque_counterexample:
  "A \<lparr>R = 255, G = 255, B = 255, A = 255\<rparr> = 255 \<and>
   blend \<lparr>R = 255, G = 255, B = 255, A = 255\<rparr> \<lparr>R = 1, G = 2, B = 3, A = 4\<rparr>
     = \<lparr>R = 254, G = 254, B = 254, A = 255\<rparr> \<and>
   R (blend \<lparr>R = 255, G = 255, B = 255, A = 255\<rparr> \<lparr>R = 1, G = 2, B = 3, A = 4\<rparr>)
     \<noteq> R \<lparr>R = 255, G = 255, B = 255, A = 255\<rparr>"
  by (simp add: blend_def)

lemma opaque_channel:
  fixes x :: uint8
  shows "unat x * 255 div 256 = (if x = 0 then 0 else unat x - 1)"
proof (cases "x = 0")
  case True
  then show ?thesis by simp
next
  case False
  then have pos: "0 < unat x" by (simp add: unat_gt_0)
  have lt: "unat x < 256" by (rule unat_u8_lt)
  have "unat x * 255 = (unat x - 1) * 256 + (256 - unat x)"
    using pos lt by (simp add: algebra_simps)
  moreover have "256 - unat x < 256" using pos by simp
  ultimately have "unat x * 255 div 256 = unat x - 1" by simp
  then show ?thesis using False by simp
qed

text \<open>
  Claim C3, amended. For a foreground \<open>c\<close> with alpha 255 and any background, the result
  of \<^verbatim>\<open>blend\<close> has alpha 255 and does not depend on the background; each of its R, G,
  B channels is \<^verbatim>\<open>(f * 255) >> 8\<close> for the foreground channel \<open>f\<close>, that is \<open>f - 1\<close>
  when \<open>f\<close> is positive and 0 when \<open>f\<close> is 0.
\<close>

theorem blend_opaque:
  assumes "A c = 255"
  shows "A (blend c base) = 255 \<and>
     unat (R (blend c base)) = (if R c = 0 then 0 else unat (R c) - 1) \<and>
     unat (G (blend c base)) = (if G c = 0 then 0 else unat (G c) - 1) \<and>
     unat (B (blend c base)) = (if B c = 0 then 0 else unat (B c) - 1)"
proof -
  have a: "A (blend c base) = 255" using assms by (simp add: blend_A)
  have r: "unat (R (blend c base)) = unat (R c) * 255 div 256"
    using assms by (simp add: blend_R bgWeight_full)
  have g: "unat (G (blend c base)) = unat (G c) * 255 div 256"
    using assms by (simp add: blend_G bgWeight_full)
  have b: "unat (B (blend c base)) = unat (B c) * 255 div 256"
    using assms by (simp add: blend_B bgWeight_full)
  show ?thesis using a r g b by (simp only: opaque_channel)
qed

theorem blend_opaque_witness:
  "A \<lparr>R = 255, G = 7, B = 0, A = 255\<rparr> = 255 \<and>
   A (blend \<lparr>R = 255, G = 7, B = 0, A = 255\<rparr> \<lparr>R = 1, G = 2, B = 3, A = 4\<rparr>) = 255 \<and>
   unat (R (blend \<lparr>R = 255, G = 7, B = 0, A = 255\<rparr> \<lparr>R = 1, G = 2, B = 3, A = 4\<rparr>)) = 254 \<and>
   unat (G (blend \<lparr>R = 255, G = 7, B = 0, A = 255\<rparr> \<lparr>R = 1, G = 2, B = 3, A = 4\<rparr>)) = 6 \<and>
   unat (B (blend \<lparr>R = 255, G = 7, B = 0, A = 255\<rparr> \<lparr>R = 1, G = 2, B = 3, A = 4\<rparr>)) = 0"
  using blend_opaque [of "\<lparr>R = 255, G = 7, B = 0, A = 255\<rparr>" "\<lparr>R = 1, G = 2, B = 3, A = 4\<rparr>"]
  by simp

section \<open>Lines and players\<close>

text \<open>
  Claim C6. A line with bounds \<open>[leftEdge, rightEdge]\<close> and colour \<open>C\<close> answers
  \<^verbatim>\<open>ColorAt(p, base)\<close> with \<open>blend C base\<close> when \<open>leftEdge \<le> p \<le> rightEdge\<close>, both
  bounds included, and with \<open>base\<close> unchanged everywhere else.
\<close>

theorem Line_containment:
  "(leftEdge l \<le> p \<and> p \<le> rightEdge l \<longrightarrow> Line_ColorAt l p base = blend (color l) base) \<and>
   (\<not> (leftEdge l \<le> p \<and> p \<le> rightEdge l) \<longrightarrow> Line_ColorAt l p base = base)"
  by (simp add: Line_ColorAt_def)

theorem Line_containment_witness:
  "Line_ColorAt (NewLine 0 50 \<lparr>R = 255, G = 0, B = 0, A = 200\<rparr> 10) 0 \<lparr>R = 0, G = 0, B = 0, A = 255\<rparr>
     = \<lparr>R = 199, G = 0, B = 0, A = 200\<rparr> \<and>
   Line_ColorAt (NewLine 0 50 \<lparr>R = 255, G = 0, B = 0, A = 200\<rparr> 10) 50 \<lparr>R = 0, G = 0, B = 0, A = 255\<rparr>
     = \<lparr>R = 199, G = 0, B = 0, A = 200\<rparr> \<and>
   Line_ColorAt (NewLine 0 50 \<lparr>R = 255, G = 0, B = 0, A = 200\<rparr> 10) 51 \<lparr>R = 0, G = 0, B = 0, A = 255\<rparr>
     = \<lparr>R = 0, G = 0, B = 0, A = 255\<rparr>"
  using Line_containment [of "NewLine 0 50 \<lparr>R = 255, G = 0, B = 0, A = 200\<rparr> 10" 0 "\<lparr>R = 0, G = 0, B = 0, A = 255\<rparr>"]
    Line_containment [of "NewLine 0 50 \<lparr>R = 255, G = 0, B = 0, A = 200\<rparr> 10" 50 "\<lparr>R = 0, G = 0, B = 0, A = 255\<rparr>"]
    Line_containment [of "NewLine 0 50 \<lparr>R = 255, G = 0, B = 0, A = 200\<rparr> 10" 51 "\<lparr>R = 0, G = 0, B = 0, A = 255\<rparr>"]
  by (simp add: NewLine_def blend_def)

text \<open>
  The earlier revision of \<^verbatim>\<open>Line.ColorAt\<close> differs on both counts: on an edge it
  returns the base, and inside it returns the line's colour unblended.
\<close>

lemma Line_ColorAt_early_edge:
  "Line_ColorAt_early l (leftEdge l) base = base \<and> Line_ColorAt_early l (rightEdge l) base = base"
  by (simp add: Line_ColorAt_early_def)

lemma Line_ColorAt_early_inside:
  "leftEdge l < p \<Longrightarrow> p < rightEdge l \<Longrightarrow> Line_ColorAt_early l p base = color l"
  by (simp add: Line_ColorAt_early_def)

text \<open>
  Claim C8. A player whose \<^verbatim>\<open>visible\<close> flag is false returns the base colour
  unchanged at every position.
\<close>

theorem Player_invisible_passthrough:
  "\<not> visible pl \<Longrightarrow> Player_ColorAt pl p base = base"
  by (simp add: Player_ColorAt_def)

theorem Player_invisible_passthrough_witness:
  "\<not> visible \<lparr>line = NewLine 0 50 \<lparr>R = 255, G = 0, B = 0, A = 200\<rparr> 10, visible = False\<rparr> \<and>
   Player_ColorAt \<lparr>line = NewLine 0 50 \<lparr>R = 255, G = 0, B = 0, A = 200\<rparr> 10, visible = False\<rparr>
       25 \<lparr>R = 1, G = 2, B = 3, A = 4\<rparr> = \<lparr>R = 1, G = 2, B = 3, A = 4\<rparr>"
  using Player_invisible_passthrough
    [of "\<lparr>line = NewLine 0 50 \<lparr>R = 255, G = 0, B = 0, A = 200\<rparr> 10, visible = False\<rparr>"
        25 "\<lparr>R = 1, G = 2, B = 3, A = 4\<rparr>"]
  by simp

lemma NewPlayer_invisible: "\<not> visible (NewPlayer isLeft field)"
  by (simp add: NewPlayer_def)

lemma Player_run_invisible:
  assumes "\<not> visible pl" and "CallUpdateVisible True \<notin> set cs"
  shows "\<not> visible (Player_run pl cs)"
  using assms
proof (induction cs arbitrary: pl)
  case Nil
  then show ?case by simp
next
  case (Cons c cs)
  have "\<not> visible (Player_call pl c)"
  proof (cases c)
    case (CallUpdateVisible v)
    with Cons.prems show ?thesis by (auto simp: UpdateVisible_def)
  next
    case (CallAnimate dt)
    with Cons.prems show ?thesis by (simp add: Player_Animate_def)
  qed
  moreover have "CallUpdateVisible True \<notin> set cs" using Cons.prems by simp
  ultimately show ?case using Cons.IH by simp
qed

text \<open>
  Claim C10. \<^verbatim>\<open>NewPlayer\<close>, for either side and any field, returns a player whose
  \<^verbatim>\<open>visible\<close> flag is false; the flag stays false over any run of calls that has no
  \<^verbatim>\<open>UpdateVisible(true)\<close>, and throughout the player returns the base colour at every
  position.
\<close>

theorem NewPlayer_starts_invisible:
  "\<not> visible (NewPlayer isLeft field) \<and>
   (CallUpdateVisible True \<notin> set cs \<longrightarrow>
      \<not> visible (Player_run (NewPlayer isLeft field) cs) \<and>
      Player_ColorAt (Player_run (NewPlayer isLeft field) cs) p base = base)"
  using Player_run_invisible [OF NewPlayer_invisible, of cs isLeft field]
  by (simp add: NewPlayer_invisible Player_ColorAt_def)

theorem NewPlayer_starts_invisible_witness:
  "CallUpdateVisible True \<notin> set [CallAnimate (1 / 60), CallUpdateVisible False, CallAnimate (1 / 60)] \<and>
   Player_ColorAt
     (Player_run (NewPlayer True \<lparr>width = 100\<rparr>)
        [CallAnimate (1 / 60), CallUpdateVisible False, CallAnimate (1 / 60)])
     25 \<lparr>R = 1, G = 2, B = 3, A = 4\<rparr> = \<lparr>R = 1, G = 2, B = 3, A = 4\<rparr> \<and>
   Player_ColorAt
     (Player_run (NewPlayer False \<lparr>width = 100\<rparr>)
        [CallAnimate (1 / 60), CallUpdateVisible False, CallAnimate (1 / 60)])
     75 \<lparr>R = 1, G = 2, B = 3, A = 4\<rparr> = \<lparr>R = 1, G = 2, B = 3, A = 4\<rparr>"
  using NewPlayer_starts_invisible
      [of True "\<lparr>width = 100\<rparr>" "[CallAnimate (1 / 60), CallUpdateVisible False, CallAnimate (1 / 60)]"
          25 "\<lparr>R = 1, G = 2, B = 3, A = 4\<rparr>"]
    NewPlayer_starts_invisible
      [of False "\<lparr>width = 100\<rparr>" "[CallAnimate (1 / 60), CallUpdateVisible False, CallAnimate (1 / 60)]"
          75 "\<lparr>R = 1, G = 2, B = 3, A = 4\<rparr>"]
  by simp

section \<open>The ball\<close>

lemma Ball_Animate_position:
  "position (fst (Ball_Animate b dt)) =
     (if position b + velocity b * dt > maxPosition b
      then 2 * maxPosition b - (position b + velocity b * dt)
      else if position b + velocity b * dt < 0 then - (position b + velocity b * dt)
      else position b + velocity b * dt)"
  by (simp add: Ball_Animate_def Let_def)

lemma Ball_Animate_velocity:
  "velocity (fst (Ball_Animate b dt)) = (if crosses b dt then - velocity b else velocity b)"
  by (auto simp: Ball_Animate_def Let_def crosses_def)

lemma Ball_Animate_maxPosition: "maxPosition (fst (Ball_Animate b dt)) = maxPosition b"
  by (simp add: Ball_Animate_def Let_def)

lemma Ball_Animate_keepAlive: "snd (Ball_Animate b dt) = True"
  by (simp add: Ball_Animate_def Let_def)

text \<open>
  Claim C5. When \<open>position + velocity * dt\<close> exceeds \<open>maxPosition\<close> by \<open>\<Delta>\<close>, with
  \<open>0 \<le> \<Delta> \<le> maxPosition\<close>, \<^verbatim>\<open>Animate\<close> leaves the ball at \<open>maxPosition - \<Delta>\<close>, inside
  the field, with its velocity negated; when it falls below 0 by \<open>\<Delta>\<close>, the ball ends at
  \<open>\<Delta>\<close> with its velocity negated. The reflection mirrors the overshoot; it does not
  clamp.
\<close>

theorem Ball_mirror_reflection:
  "(maxPosition b < position b + velocity b * dt \<and>
    \<Delta> = position b + velocity b * dt - maxPosition b \<and> 0 \<le> \<Delta> \<and> \<Delta> \<le> maxPosition b \<longrightarrow>
      position (fst (Ball_Animate b dt)) = maxPosition b - \<Delta> \<and>
      velocity (fst (Ball_Animate b dt)) = - velocity b \<and>
      0 \<le> position (fst (Ball_Animate b dt)) \<and>
      position (fst (Ball_Animate b dt)) < maxPosition b) \<and>
   (position b + velocity b * dt < 0 \<and>
    \<Delta> = - (position b + velocity b * dt) \<and> 0 \<le> \<Delta> \<and> \<Delta> \<le> maxPosition b \<longrightarrow>
      position (fst (Ball_Animate b dt)) = \<Delta> \<and>
      velocity (fst (Ball_Animate b dt)) = - velocity b \<and>
      0 < position (fst (Ball_Animate b dt)) \<and>
      position (fst (Ball_Animate b dt)) \<le> maxPosition b)"
proof (intro conjI impI)
  assume h: "maxPosition b < position b + velocity b * dt \<and>
    \<Delta> = position b + velocity b * dt - maxPosition b \<and> 0 \<le> \<Delta> \<and> \<Delta> \<le> maxPosition b"
  then have c: "crosses b dt" by (simp add: crosses_def)
  show "position (fst (Ball_Animate b dt)) = maxPosition b - \<Delta>"
    using h by (simp add: Ball_Animate_position)
  then show "0 \<le> position (fst (Ball_Animate b dt))"
    and "position (fst (Ball_Animate b dt)) < maxPosition b"
    using h by simp_all
  show "velocity (fst (Ball_Animate b dt)) = - velocity b"
    using c by (simp add: Ball_Animate_velocity)
next
  assume h: "position b + velocity b * dt < 0 \<and>
    \<Delta> = - (position b + velocity b * dt) \<and> 0 \<le> \<Delta> \<and> \<Delta> \<le> maxPosition b"
  then have c: "crosses b dt" by (simp add: crosses_def)
  have "\<not> maxPosition b < position b + velocity b * dt" using h by simp
  then show "position (fst (Ball_Animate b dt)) = \<Delta>"
    using h by (simp add: Ball_Animate_position)
  then show "0 < position (fst (Ball_Animate b dt))"
    and "position (fst (Ball_Animate b dt)) \<le> maxPosition b"
    using h by simp_all
  show "velocity (fst (Ball_Animate b dt)) = - velocity b"
    using c by (simp add: Ball_Animate_velocity)
qed

theorem Ball_mirror_reflection_witness:
  "position (fst (Ball_Animate \<lparr>position = 90, velocity = 100 / 3, maxPosition = 99, zindex = 100\<rparr> 1))
     = 99 - 73 / 3 \<and>
   velocity (fst (Ball_Animate \<lparr>position = 90, velocity = 100 / 3, maxPosition = 99, zindex = 100\<rparr> 1))
     = - (100 / 3) \<and>
   position (fst (Ball_Animate \<lparr>position = 10, velocity = - (100 / 3), maxPosition = 99, zindex = 100\<rparr> 1))
     = 70 / 3 \<and>
   velocity (fst (Ball_Animate \<lparr>position = 10, velocity = - (100 / 3), maxPosition = 99, zindex = 100\<rparr> 1))
     = 100 / 3"
  using Ball_mirror_reflection
      [of "\<lparr>position = 90, velocity = 100 / 3, maxPosition = 99, zindex = 100\<rparr>" 1 "73 / 3"]
    Ball_mirror_reflection
      [of "\<lparr>position = 10, velocity = - (100 / 3), maxPosition = 99, zindex = 100\<rparr>" 1 "70 / 3"]
  by simp

text \<open>
  Claim C1 fails on the code. The field \<^verbatim>\<open>maxPosition\<close> is documented as
  \<^verbatim>\<open>max position of ball, min is 0\<close>, and \<^verbatim>\<open>Animate\<close> reflects to keep the ball in
  that range, but it reflects only once: a step longer than the field is mirrored to
  the other side of it. The ball of a field of width 100 starts at position 0 with
  velocity \<open>100 / 3\<close>, a valid state; after one positive step of 9 seconds it is at
  \<open>- 102\<close>, below 0.
\<close>

theorem Ball_boundary_violation:
  "0 \<le> position (NewBall \<lparr>width = 100\<rparr>) \<and>
   position (NewBall \<lparr>width = 100\<rparr>) \<le> maxPosition (NewBall \<lparr>width = 100\<rparr>) \<and>
   velocity (NewBall \<lparr>width = 100\<rparr>) \<noteq> 0 \<and> (0 :: real) < 9 \<and>
   position (fst (Ball_Animate (NewBall \<lparr>width = 100\<rparr>) 9)) = - 102 \<and>
   \<not> (0 \<le> position (fst (Ball_Animate (NewBall \<lparr>width = 100\<rparr>) 9)))"
  by (simp add: NewBall_def Width_def Ball_Animate_def Let_def)

lemma Ball_Animate_in_field:
  assumes "0 \<le> position b" and "position b \<le> maxPosition b"
    and "\<bar>velocity b\<bar> * \<bar>dt\<bar> \<le> maxPosition b"
  shows "0 \<le> position (fst (Ball_Animate b dt)) \<and>
         position (fst (Ball_Animate b dt)) \<le> maxPosition b"
proof -
  have "\<bar>velocity b * dt\<bar> \<le> maxPosition b" using assms(3) by (simp add: abs_mult)
  then have "- maxPosition b \<le> velocity b * dt" and "velocity b * dt \<le> maxPosition b"
    by linarith+
  then show ?thesis using assms(1,2) by (simp add: Ball_Animate_position)
qed

lemma Ball_Animate_speed: "\<bar>velocity (fst (Ball_Animate b dt))\<bar> = \<bar>velocity b\<bar>"
  by (simp add: Ball_Animate_velocity)

lemma Ball_run_in_field:
  assumes "0 \<le> position b" and "position b \<le> maxPosition b"
    and "\<forall>dt \<in> set dts. 0 < dt \<and> \<bar>velocity b\<bar> * dt \<le> maxPosition b"
  shows "0 \<le> position (Ball_run b dts) \<and> position (Ball_run b dts) \<le> maxPosition b"
  using assms
proof (induction dts arbitrary: b)
  case Nil
  then show ?case by simp
next
  case (Cons dt dts)
  let ?b = "fst (Ball_Animate b dt)"
  have step: "0 < dt" "\<bar>velocity b\<bar> * dt \<le> maxPosition b" using Cons.prems(3) by simp_all
  then have "\<bar>velocity b\<bar> * \<bar>dt\<bar> \<le> maxPosition b" by simp
  then have inside: "0 \<le> position ?b \<and> position ?b \<le> maxPosition b"
    by (rule Ball_Animate_in_field [OF Cons.prems(1,2)])
  have rest: "\<forall>d \<in> set dts. 0 < d \<and> \<bar>velocity ?b\<bar> * d \<le> maxPosition ?b"
    using Cons.prems(3) by (simp add: Ball_Animate_speed Ball_Animate_maxPosition)
  have "0 \<le> position (Ball_run ?b dts) \<and> position (Ball_run ?b dts) \<le> maxPosition ?b"
    using inside rest by (intro Cons.IH) (simp_all add: Ball_Animate_maxPosition)
  then show ?case by (simp add: Ball_Animate_maxPosition)
qed

lemma Ball_run_velocity: "velocity (Ball_run b dts) = (- 1) ^ crossings b dts * velocity b"
proof (induction dts arbitrary: b)
  case Nil
  then show ?case by simp
next
  case (Cons dt dts)
  show ?case by (simp add: Cons.IH Ball_Animate_velocity)
qed

text \<open>
  What the single reflection does cover. For every ball with position in
  \<open>[0, maxPosition]\<close> and nonzero velocity, and every sequence of positive \<open>dt\<close> in
  which no step is longer than the field (\<open>\<bar>velocity\<bar> * dt \<le> maxPosition\<close>), the
  position is within \<open>[0, maxPosition]\<close> after each call of \<^verbatim>\<open>Animate\<close>, that is
  after the first \<open>n\<close> calls for every \<open>n\<close>. The velocity is negated in exactly the
  steps in which \<open>position + velocity * dt\<close> leaves \<open>[0, maxPosition]\<close>, once for each,
  and is unchanged in the others.
\<close>

theorem Ball_boundary_bounded_steps:
  assumes "0 \<le> position b" and "position b \<le> maxPosition b" and "velocity b \<noteq> 0"
    and "\<forall>dt \<in> set dts. 0 < dt \<and> \<bar>velocity b\<bar> * dt \<le> maxPosition b"
  shows "0 \<le> position (Ball_run b (take n dts)) \<and>
         position (Ball_run b (take n dts)) \<le> maxPosition b \<and>
         velocity (Ball_run b (take n dts)) = (- 1) ^ crossings b (take n dts) * velocity b \<and>
         velocity (Ball_run b (take n dts)) \<noteq> 0"
proof -
  have "\<forall>dt \<in> set (take n dts). 0 < dt \<and> \<bar>velocity b\<bar> * dt \<le> maxPosition b"
    using assms(4) by (auto dest: in_set_takeD)
  then have "0 \<le> position (Ball_run b (take n dts)) \<and>
      position (Ball_run b (take n dts)) \<le> maxPosition b"
    by (rule Ball_run_in_field [OF assms(1,2)])
  then show ?thesis using assms(3) by (simp add: Ball_run_velocity)
qed

theorem Ball_boundary_bounded_steps_witness:
  "0 \<le> position (NewBall \<lparr>width = 100\<rparr>) \<and>
   position (NewBall \<lparr>width = 100\<rparr>) \<le> maxPosition (NewBall \<lparr>width = 100\<rparr>) \<and>
   velocity (NewBall \<lparr>width = 100\<rparr>) \<noteq> 0 \<and>
   \<bar>velocity (NewBall \<lparr>width = 100\<rparr>)\<bar> * 1 \<le> maxPosition (NewBall \<lparr>width = 100\<rparr>) \<and>
   \<bar>velocity (NewBall \<lparr>width = 100\<rparr>)\<bar> * 2 \<le> maxPosition (NewBall \<lparr>width = 100\<rparr>) \<and>
   crossings (NewBall \<lparr>width = 100\<rparr>) [1, 1, 1, 2] = 1 \<and>
   0 \<le> position (Ball_run (NewBall \<lparr>width = 100\<rparr>) [1, 1, 1, 2]) \<and>
   position (Ball_run (NewBall \<lparr>width = 100\<rparr>) [1, 1, 1, 2]) \<le> 99 \<and>
   velocity (Ball_run (NewBall \<lparr>width = 100\<rparr>) [1, 1, 1, 2]) = - (100 / 3)"
proof -
  have h: "\<forall>dt \<in> set [1, 1, 1, 2 :: real].
      0 < dt \<and> \<bar>velocity (NewBall \<lparr>width = 100\<rparr>)\<bar> * dt \<le> maxPosition (NewBall \<lparr>width = 100\<rparr>)"
    by (simp add: NewBall_def Width_def)
  have c: "crossings (NewBall \<lparr>width = 100\<rparr>) [1, 1, 1, 2] = 1"
    by (simp add: NewBall_def Width_def Ball_Animate_def crosses_def Let_def)
  show ?thesis
    using Ball_boundary_bounded_steps [of "NewBall \<lparr>width = 100\<rparr>" "[1, 1, 1, 2]" 4] h c
    by (simp add: NewBall_def Width_def)
qed

lemma uint_dotAlpha:
  assumes "0 \<le> d" and "d < 1"
  shows "uint (dotAlpha d) = \<lfloor>(1 - d) * 255\<rfloor>"
proof -
  have pos: "0 < (1 - d) * 255" using assms by simp
  have le: "(1 - d) * 255 \<le> 255" using assms by simp
  have lo: "0 \<le> \<lfloor>(1 - d) * 255\<rfloor>" using pos by simp
  have "\<lfloor>(1 - d) * 255\<rfloor> \<le> \<lfloor>255 :: real\<rfloor>" using le by (rule floor_mono)
  then have hi: "\<lfloor>(1 - d) * 255\<rfloor> < 256" by simp
  have "int_of_float ((1 - d) * 255) = \<lfloor>(1 - d) * 255\<rfloor>"
    using pos by (simp add: int_of_float_def)
  then have "uint (dotAlpha d) = \<lfloor>(1 - d) * 255\<rfloor> mod 256"
    by (simp add: dotAlpha_def uint8_of_float_def uint_word_of_int)
  then show ?thesis using lo hi by simp
qed

lemma dotAlpha_mono:
  assumes "0 \<le> d1" and "d1 \<le> d2" and "d2 < 1"
  shows "dotAlpha d2 \<le> dotAlpha d1"
proof -
  have "(1 - d2) * 255 \<le> (1 - d1) * 255" using assms(2) by simp
  then have "\<lfloor>(1 - d2) * 255\<rfloor> \<le> \<lfloor>(1 - d1) * 255\<rfloor>" by (rule floor_mono)
  moreover have "uint (dotAlpha d1) = \<lfloor>(1 - d1) * 255\<rfloor>"
    using assms by (intro uint_dotAlpha) simp_all
  moreover have "uint (dotAlpha d2) = \<lfloor>(1 - d2) * 255\<rfloor>"
    using assms by (intro uint_dotAlpha) simp_all
  ultimately show ?thesis by (simp add: word_le_def)
qed

text \<open>
  Claim C7. With \<open>distance = \<bar>p - position\<bar>\<close>, \<^verbatim>\<open>Ball.ColorAt\<close> returns the base colour
  unchanged when \<open>distance \<ge> 1\<close>; when \<open>distance < 1\<close> it returns white blended over the
  base with alpha \<open>(1 - distance) * 255\<close> (its integer part, as the conversion to
  \<^verbatim>\<open>uint8\<close> truncates), and that alpha is the alpha of the result. The alpha is 255 at
  distance 0 and does not increase as the distance grows.
\<close>

theorem Ball_dot_falloff:
  "(1 \<le> \<bar>p - position b\<bar> \<longrightarrow> Ball_ColorAt b p base = base) \<and>
   (\<bar>p - position b\<bar> < 1 \<longrightarrow>
      Ball_ColorAt b p base
        = blend \<lparr>R = 255, G = 255, B = 255, A = dotAlpha \<bar>p - position b\<bar>\<rparr> base \<and>
      A (Ball_ColorAt b p base) = dotAlpha \<bar>p - position b\<bar> \<and>
      uint (dotAlpha \<bar>p - position b\<bar>) = \<lfloor>(1 - \<bar>p - position b\<bar>) * 255\<rfloor>) \<and>
   dotAlpha 0 = 255 \<and>
   (0 \<le> d1 \<and> d1 \<le> d2 \<and> d2 < 1 \<longrightarrow> dotAlpha d2 \<le> dotAlpha d1)"
proof (intro conjI impI)
  show "Ball_ColorAt b p base = base" if "1 \<le> \<bar>p - position b\<bar>"
    using that by (simp add: Ball_ColorAt_def Let_def)
  show "dotAlpha 0 = 255"
    by (simp add: dotAlpha_def uint8_of_float_def int_of_float_def)
  show "dotAlpha d2 \<le> dotAlpha d1" if "0 \<le> d1 \<and> d1 \<le> d2 \<and> d2 < 1"
    using that by (intro dotAlpha_mono) simp_all
  assume near: "\<bar>p - position b\<bar> < 1"
  then show eq: "Ball_ColorAt b p base
        = blend \<lparr>R = 255, G = 255, B = 255, A = dotAlpha \<bar>p - position b\<bar>\<rparr> base"
    by (simp add: Ball_ColorAt_def Let_def)
  show "A (Ball_ColorAt b p base) = dotAlpha \<bar>p - position b\<bar>"
    by (simp add: eq blend_A)
  show "uint (dotAlpha \<bar>p - position b\<bar>) = \<lfloor>(1 - \<bar>p - position b\<bar>) * 255\<rfloor>"
    using near by (intro uint_dotAlpha) simp_all
qed

theorem Ball_dot_falloff_witness:
  "Ball_ColorAt \<lparr>position = 50, velocity = 100 / 3, maxPosition = 99, zindex = 100\<rparr> 51
       \<lparr>R = 10, G = 20, B = 30, A = 255\<rparr> = \<lparr>R = 10, G = 20, B = 30, A = 255\<rparr> \<and>
   Ball_ColorAt \<lparr>position = 50, velocity = 100 / 3, maxPosition = 99, zindex = 100\<rparr> (101 / 2)
       \<lparr>R = 10, G = 20, B = 30, A = 255\<rparr> = \<lparr>R = 130, G = 135, B = 140, A = 127\<rparr> \<and>
   dotAlpha (1 / 2) \<le> dotAlpha (1 / 4) \<and> dotAlpha (1 / 4) = 191 \<and> dotAlpha (1 / 2) = 127"
proof -
  have v: "dotAlpha (1 / 2) = 127" "dotAlpha (1 / 4) = 191"
    by (simp_all add: dotAlpha_def uint8_of_float_def int_of_float_def)
  have far: "Ball_ColorAt \<lparr>position = 50, velocity = 100 / 3, maxPosition = 99, zindex = 100\<rparr> 51
       \<lparr>R = 10, G = 20, B = 30, A = 255\<rparr> = \<lparr>R = 10, G = 20, B = 30, A = 255\<rparr>"
    using Ball_dot_falloff
      [of 51 "\<lparr>position = 50, velocity = 100 / 3, maxPosition = 99, zindex = 100\<rparr>"
          "\<lparr>R = 10, G = 20, B = 30, A = 255\<rparr>" "1 / 4" "1 / 2"]
    by simp
  have near: "Ball_ColorAt \<lparr>position = 50, velocity = 100 / 3, maxPosition = 99, zindex = 100\<rparr> (101 / 2)
       \<lparr>R = 10, G = 20, B = 30, A = 255\<rparr> = \<lparr>R = 130, G = 135, B = 140, A = 127\<rparr>"
    and mono: "dotAlpha (1 / 2) \<le> dotAlpha (1 / 4)"
    using Ball_dot_falloff
      [of "101 / 2" "\<lparr>position = 50, velocity = 100 / 3, maxPosition = 99, zindex = 100\<rparr>"
          "\<lparr>R = 10, G = 20, B = 30, A = 255\<rparr>" "1 / 4" "1 / 2"]
    by (simp_all add: v blend_def)
  show ?thesis using far near mono v by simp
qed

section \<open>The sinusoid\<close>

lemma NewSinusoid_table: "length (sineLookup (NewSinusoid field z)) = 256"
  by (simp add: NewSinusoid_def buildLookup_def)

lemma NewSinusoid_offsets: "offsets (NewSinusoid field z) = (0, 0, 0)"
  by (simp add: NewSinusoid_def buildLookup_def)

lemma NewSinusoid_scale: "scale (NewSinusoid field z) = of_int (Width field)"
  by (simp add: NewSinusoid_def buildLookup_def)

lemma Sinusoid_Animate_table: "sineLookup (fst (Sinusoid_Animate s dt)) = sineLookup s"
  by (simp add: Sinusoid_Animate_def split: prod.splits)

lemma Sinusoid_Animate_scale: "scale (fst (Sinusoid_Animate s dt)) = scale s"
  by (simp add: Sinusoid_Animate_def split: prod.splits)

text \<open>
  Claim C4 fails on the code. A sinusoid for a field of width 100, advanced once by
  \<open>dt = 1\<close>, has first offset \<open>27 / 100\<close>. At position 73 the phase is
  \<open>73 / 100 + 27 / 100 = 1\<close>, which the test \<^verbatim>\<open>fieldPercentage > 1\<close> lets through, so
  the index is 256: one past the end of the 256-entry table.
\<close>

theorem Sinusoid_lookup_out_of_bounds:
  "0 \<le> (73 :: real) \<and> 73 < scale (fst (Sinusoid_Animate (NewSinusoid \<lparr>width = 100\<rparr> z) 1)) \<and>
   length (sineLookup (fst (Sinusoid_Animate (NewSinusoid \<lparr>width = 100\<rparr> z) 1))) = 256 \<and>
   fst (offsets (fst (Sinusoid_Animate (NewSinusoid \<lparr>width = 100\<rparr> z) 1))) = 27 / 100 \<and>
   lookupIndex (73 / 100 + 27 / 100) = 256 \<and>
   lookup (fst (Sinusoid_Animate (NewSinusoid \<lparr>width = 100\<rparr> z) 1)) (73 / 100 + 27 / 100) = None \<and>
   Sinusoid_ColorAt (fst (Sinusoid_Animate (NewSinusoid \<lparr>width = 100\<rparr> z) 1)) 73 base = None"
proof -
  let ?s = "fst (Sinusoid_Animate (NewSinusoid \<lparr>width = 100\<rparr> z) 1)"
  have len: "length (sineLookup ?s) = 256"
    by (simp add: Sinusoid_Animate_table NewSinusoid_table)
  have sc: "scale ?s = 100"
    by (simp add: Sinusoid_Animate_scale NewSinusoid_scale Width_def)
  have off: "offsets ?s = (27 / 100, 41 / 100, 59 / 100)"
    by (simp add: Sinusoid_Animate_def NewSinusoid_offsets wrapOffset_def)
  have idx: "lookupIndex (73 / 100 + 27 / 100) = 256"
    by (simp add: lookupIndex_def int_of_float_def)
  have none: "lookup ?s (73 / 100 + 27 / 100) = None"
    unfolding lookup_def Let_def len idx by simp
  have "Sinusoid_ColorAt ?s 73 base = None"
    unfolding Sinusoid_ColorAt_def Let_def sc off using none by simp
  then show ?thesis using len sc off idx none by simp
qed

text \<open>
  What the single subtraction in \<^verbatim>\<open>lookup\<close> does cover: a phase in \<open>[0, 1)\<close> or
  strictly between 1 and 2 gives an index inside the table.
\<close>

lemma lookupIndex_in_bounds:
  assumes "0 \<le> x \<and> x < 1 \<or> 1 < x \<and> x < 2"
  shows "0 \<le> lookupIndex x \<and> lookupIndex x < 256"
proof -
  define y where "y = (if x > 1 then x - 1 else x)"
  have y: "0 \<le> y" "y < 1" using assms by (auto simp: y_def)
  then have "0 \<le> y * 256" and "y * 256 < 256" by simp_all
  then have "0 \<le> \<lfloor>y * 256\<rfloor>" and "\<lfloor>y * 256\<rfloor> < 256"
    by (simp_all add: floor_less_iff)
  moreover have "lookupIndex x = \<lfloor>y * 256\<rfloor>"
    using y by (simp add: lookupIndex_def int_of_float_def y_def)
  ultimately show ?thesis by simp
qed

end
